theory Spec2Isabelle
  imports Main
begin

section \<open>JavaScript values, errors and strings\<close>

text \<open>
  The storefront's API client (\<^verbatim>\<open>src/api/apiClient.js\<close>) and its authentication hook
  (\<^verbatim>\<open>src/hooks/useAuth.js\<close>) are JavaScript. The values they handle are the values a
  JSON body parses to, plus \<^verbatim>\<open>null\<close> and \<^verbatim>\<open>undefined\<close>. A parsed JSON value is a
  \<open>json\<close>; an expression that may be \<^verbatim>\<open>undefined\<close> is a \<open>json option\<close> with \<open>None\<close>
  for \<^verbatim>\<open>undefined\<close>. Numbers are the integers, and \<open>JNum n\<close> stands for a number a
  double holds exactly and prints in positional notation (magnitude below \<open>10^21\<close>): a
  fraction, an exponent or a larger magnitude is a matter of IEEE doubles and stays
  outside this development. An object is the list of its own properties, the first
  entry for a key being the property's value.
\<close>

datatype json =
    JNull
  | JBool bool
  | JNum int
  | JStr string
  | JArr "json list"
  | JObj "(string \<times> json) list"

text \<open>
  Everything the code throws is an \<^verbatim>\<open>Error\<close> object or one of its subclasses, read by
  the callers through \<^verbatim>\<open>err.message\<close> only.
\<close>

datatype error = Error string | TypeError string | SyntaxError string

fun message :: "error \<Rightarrow> string" where
  "message (Error m) = m"
| "message (TypeError m) = m"
| "message (SyntaxError m) = m"

text \<open>Truthiness, as \<^verbatim>\<open>if (x)\<close> and \<^verbatim>\<open>x || y\<close> read a value.\<close>

fun js_truthy :: "json \<Rightarrow> bool" where
  "js_truthy JNull = False"
| "js_truthy (JBool b) = b"
| "js_truthy (JNum n) = (n \<noteq> 0)"
| "js_truthy (JStr s) = (s \<noteq> [])"
| "js_truthy (JArr xs) = True"
| "js_truthy (JObj kvs) = True"

definition truthy :: "json option \<Rightarrow> bool" where
  "truthy v = (case v of None \<Rightarrow> False | Some x \<Rightarrow> js_truthy x)"

text \<open>\<^verbatim>\<open>a || b\<close>: \<open>a\<close> when it is truthy, else \<open>b\<close>.\<close>

definition js_or :: "json option \<Rightarrow> json \<Rightarrow> json" where
  "js_or a b = (case a of None \<Rightarrow> b | Some x \<Rightarrow> if js_truthy x then x else b)"

text \<open>
  A member read \<^verbatim>\<open>x.k\<close>, for the member names the code reads (\<^verbatim>\<open>detail\<close>,
  \<^verbatim>\<open>access_token\<close>, \<^verbatim>\<open>username\<close>, \<^verbatim>\<open>password\<close>), none of which a built-in prototype
  defines: on \<^verbatim>\<open>null\<close> the read throws a \<^verbatim>\<open>TypeError\<close> (the message is V8's), on an
  object it is the own property or \<^verbatim>\<open>undefined\<close>, on every other value it is
  \<^verbatim>\<open>undefined\<close>.
\<close>

fun js_get :: "json \<Rightarrow> string \<Rightarrow> error + json option" where
  "js_get JNull k =
     Inl (TypeError (''Cannot read properties of null (reading '' @ [CHR 0x27] @ k @ [CHR 0x27] @ '')''))"
| "js_get (JObj kvs) k = Inr (map_of kvs k)"
| "js_get (JBool b) k = Inr None"
| "js_get (JNum n) k = Inr None"
| "js_get (JStr s) k = Inr None"
| "js_get (JArr xs) k = Inr None"

text \<open>An object literal \<^verbatim>\<open>{ k1, k2 }\<close> as \<^verbatim>\<open>JSON.stringify\<close> sees it: an
  \<^verbatim>\<open>undefined\<close> member is left out.\<close>

fun js_object :: "(string \<times> json option) list \<Rightarrow> (string \<times> json) list" where
  "js_object [] = []"
| "js_object ((k, None) # kvs) = js_object kvs"
| "js_object ((k, Some v) # kvs) = (k, v) # js_object kvs"

text \<open>The decimal numeral of a natural number, as a template literal prints an HTTP status.\<close>

fun decimal :: "nat \<Rightarrow> string" where
  "decimal n =
     (if n < 10 then [''0123456789'' ! n]
      else decimal (n div 10) @ [''0123456789'' ! (n mod 10)])"

declare decimal.simps [simp del]

text \<open>
  \<^verbatim>\<open>String(x)\<close>, the conversion a template literal, \<^verbatim>\<open>new Error(x)\<close> and
  \<^verbatim>\<open>localStorage.setItem\<close> apply: a string is itself, an array is its elements joined by
  commas with \<^verbatim>\<open>null\<close> printed as nothing, an object is \<^verbatim>\<open>[object Object]\<close>. A
  number is its decimal numeral, which is what JavaScript prints for an integer of
  magnitude below \<open>10^21\<close>; from there on JavaScript prints an exponent
  (\<^verbatim>\<open>1e+21\<close>) and \<open>js_to_string\<close> is not its model.
\<close>

fun js_to_string :: "json \<Rightarrow> string" and js_join :: "json list \<Rightarrow> string" where
  "js_to_string JNull = ''null''"
| "js_to_string (JBool b) = (if b then ''true'' else ''false'')"
| "js_to_string (JNum n) = (if n < 0 then ''-'' @ decimal (nat (- n)) else decimal (nat n))"
| "js_to_string (JStr s) = s"
| "js_to_string (JArr xs) = js_join xs"
| "js_to_string (JObj kvs) = ''[object Object]''"
| "js_join [] = []"
| "js_join [x] = (if x = JNull then [] else js_to_string x)"
| "js_join (x # y # ys) = (if x = JNull then [] else js_to_string x) @ '','' @ js_join (y # ys)"

text \<open>\<^verbatim>\<open>s.includes(t)\<close>: \<open>t\<close> occurs in \<open>s\<close> as a substring.\<close>

fun js_includes :: "string \<Rightarrow> string \<Rightarrow> bool" where
  "js_includes [] t = (t = [])"
| "js_includes (c # cs) t = (take (length t) (c # cs) = t \<or> js_includes cs t)"

section \<open>Configuration (\<^verbatim>\<open>src/api/config.js\<close>)\<close>

record api_config =
  USER_SERVICE :: string
  PRODUCT_SERVICE :: string
  ORDER_SERVICE :: string
  PAYMENT_SERVICE :: string
  CART_SERVICE :: string
  INVENTORY_SERVICE :: string
  NOTIFICATION_SERVICE :: string

text \<open>\<^verbatim>\<open>import.meta.env.NAME || fallback\<close>: an unset or empty variable gives the fallback.\<close>

definition env_or :: "(string \<rightharpoonup> string) \<Rightarrow> string \<Rightarrow> string \<Rightarrow> string" where
  "env_or env name fallback =
     (case env name of None \<Rightarrow> fallback | Some v \<Rightarrow> if v = [] then fallback else v)"

definition API_CONFIG :: "(string \<rightharpoonup> string) \<Rightarrow> api_config" where
  "API_CONFIG env =
     \<lparr> USER_SERVICE = env_or env ''VITE_USER_SERVICE_URL'' ''http://localhost:8000'',
       PRODUCT_SERVICE = env_or env ''VITE_PRODUCT_SERVICE_URL'' ''http://localhost:8001'',
       ORDER_SERVICE = env_or env ''VITE_ORDER_SERVICE_URL'' ''http://localhost:8002'',
       PAYMENT_SERVICE = env_or env ''VITE_PAYMENT_SERVICE_URL'' ''http://localhost:8003'',
       CART_SERVICE = env_or env ''VITE_CART_SERVICE_URL'' ''http://localhost:8004'',
       INVENTORY_SERVICE = env_or env ''VITE_INVENTORY_SERVICE_URL'' ''http://localhost:8005'',
       NOTIFICATION_SERVICE = env_or env ''VITE_NOTIFICATION_SERVICE_URL'' ''http://localhost:8006'' \<rparr>"

definition AUTH_LOGIN :: string where "AUTH_LOGIN = ''/auth/login''"
definition AUTH_REGISTER :: string where "AUTH_REGISTER = ''/auth/register''"
definition AUTH_PROFILE :: string where "AUTH_PROFILE = ''/profile''"
definition PRODUCTS_LIST :: string where "PRODUCTS_LIST = ''/products''"

section \<open>Requests, responses and the browser\<close>

text \<open>
  A headers object maps header names to values. The options bag of
  \<^verbatim>\<open>request(serviceUrl, endpoint, options = {})\<close> has the members the code and its
  callers use; \<open>None\<close> is a member the bag does not have. A body is either literal
  text or \<^verbatim>\<open>JSON.stringify(v)\<close> of a value, kept as that value. The config is what
  \<^verbatim>\<open>fetch(url, config)\<close> receives.
\<close>

type_synonym headers = "string \<rightharpoonup> string"

datatype body = Text string | JSON_stringify json

record options =
  opt_method :: "string option"
  opt_body :: "body option"
  opt_headers :: "headers option"

record config =
  cfg_method :: "string option"
  cfg_body :: "body option"
  cfg_headers :: headers

text \<open>
  What the code reads of a \<^verbatim>\<open>Response\<close>: \<^verbatim>\<open>status\<close>, \<^verbatim>\<open>statusText\<close>,
  \<^verbatim>\<open>headers.get('content-type')\<close> (\<open>None\<close> for \<^verbatim>\<open>null\<close>), and what
  \<^verbatim>\<open>await response.json()\<close> settles to: the parsed body, or the error of a body that
  is not JSON text. \<^verbatim>\<open>response.ok\<close> is a status from 200 to 299.
\<close>

record response =
  status :: nat
  statusText :: string
  content_type :: "string option"
  response_json :: "error + json"

definition ok :: "response \<Rightarrow> bool" where
  "ok r = (200 \<le> status r \<and> status r \<le> 299)"

text \<open>
  The network: \<^verbatim>\<open>await fetch(url, config)\<close> gives a response or rejects. It is a
  parameter of every operation, so a theorem holds for every server; the calls one
  operation of the hook makes go to different URLs, so a function of the URL and the
  config gives them any combination of answers.
\<close>

type_synonym fetch = "string \<Rightarrow> config \<Rightarrow> error + response"

text \<open>
  The state the client reads and writes: its \<^verbatim>\<open>token\<close> member, the browser's
  \<^verbatim>\<open>localStorage\<close>, and \<open>requests\<close>, the calls of \<^verbatim>\<open>fetch\<close> made so far, oldest first.
  The store maps keys to strings and takes every write (no quota); \<^verbatim>\<open>getItem\<close> gives
  \<^verbatim>\<open>null\<close> for a key it does not hold, \<^verbatim>\<open>setItem\<close> stores \<^verbatim>\<open>String(v)\<close>.
\<close>

record state =
  token :: json
  localStorage :: "string \<rightharpoonup> string"
  requests :: "(string \<times> config) list"

definition getItem :: "string \<Rightarrow> state \<Rightarrow> json" where
  "getItem k st = (case localStorage st k of None \<Rightarrow> JNull | Some s \<Rightarrow> JStr s)"

definition setItem :: "string \<Rightarrow> json \<Rightarrow> state \<Rightarrow> state" where
  "setItem k v st = st\<lparr>localStorage := (localStorage st)(k \<mapsto> js_to_string v)\<rparr>"

definition removeItem :: "string \<Rightarrow> state \<Rightarrow> state" where
  "removeItem k st = st\<lparr>localStorage := (localStorage st)(k := None)\<rparr>"

section \<open>The API client (\<^verbatim>\<open>src/api/apiClient.js\<close>)\<close>

text \<open>\<^verbatim>\<open>constructor() { this.token = localStorage.getItem('token'); }\<close>\<close>

definition constructor :: "state \<Rightarrow> state" where
  "constructor st = st\<lparr>token := getItem ''token'' st\<rparr>"

text \<open>
  Lines 13 to 24 of \<^verbatim>\<open>request\<close>:
  \<^verbatim>\<open>
  const config = {
    headers: { 'Content-Type': 'application/json', ...options.headers },
    ...options,
  };
  if (this.token) { config.headers.Authorization = `Bearer ${this.token}`; }
  \<close>
  The spread of \<^verbatim>\<open>options\<close> comes after the \<^verbatim>\<open>headers\<close> member, so when the bag has a
  \<^verbatim>\<open>headers\<close> member of its own that member replaces the merged object:
  \<^verbatim>\<open>config.headers\<close> then is the caller's own headers object, and the assignment of
  the \<^verbatim>\<open>Authorization\<close> header is a write into that object, which the caller keeps.
  \<open>build_config\<close> is the config handed to \<^verbatim>\<open>fetch\<close>; \<open>written_options\<close> is the
  caller's options bag as the call leaves it.
\<close>

definition default_headers :: headers where
  "default_headers = [''Content-Type'' \<mapsto> ''application/json'']"

definition build_config :: "json \<Rightarrow> options \<Rightarrow> config" where
  "build_config tok options =
     (let merged = default_headers ++ (case opt_headers options of None \<Rightarrow> Map.empty | Some h \<Rightarrow> h);
          config = \<lparr> cfg_method = opt_method options,
                     cfg_body = opt_body options,
                     cfg_headers = (case opt_headers options of None \<Rightarrow> merged | Some h \<Rightarrow> h) \<rparr>
      in if js_truthy tok
         then config\<lparr>cfg_headers := (cfg_headers config)(''Authorization'' \<mapsto> ''Bearer '' @ js_to_string tok)\<rparr>
         else config)"

definition written_options :: "json \<Rightarrow> options \<Rightarrow> options" where
  "written_options tok options =
     (case opt_headers options of
        None \<Rightarrow> options
      | Some h \<Rightarrow>
          if js_truthy tok
          then options\<lparr>opt_headers := Some (h(''Authorization'' \<mapsto> ''Bearer '' @ js_to_string tok))\<rparr>
          else options)"

text \<open>
  Lines 30 to 41, on the response \<^verbatim>\<open>fetch\<close> gave:
  \<^verbatim>\<open>
  const contentType = response.headers.get('content-type');
  if (!contentType || !contentType.includes('application/json')) {
    throw new Error(`Server returned ${response.status}: ${response.statusText}`);
  }
  const data = await response.json();
  if (!response.ok) {
    throw new Error(data.detail || `HTTP error! status: ${response.status}`);
  }
  return data;
  \<close>
  \<^verbatim>\<open>new Error(x)\<close> has the message \<^verbatim>\<open>String(x)\<close>.
\<close>

definition json_content_type :: "response \<Rightarrow> bool" where
  "json_content_type r =
     (case content_type r of
        None \<Rightarrow> False
      | Some contentType \<Rightarrow> contentType \<noteq> [] \<and> js_includes contentType ''application/json'')"

definition handle_response :: "response \<Rightarrow> error + json" where
  "handle_response r =
     (if \<not> json_content_type r
      then Inl (Error (''Server returned '' @ decimal (status r) @ '': '' @ statusText r))
      else case response_json r of
             Inl e \<Rightarrow> Inl e
           | Inr data \<Rightarrow>
               if \<not> ok r
               then (case js_get data ''detail'' of
                       Inl e \<Rightarrow> Inl e
                     | Inr detail \<Rightarrow>
                         Inl (Error (js_to_string
                           (js_or detail (JStr (''HTTP error! status: '' @ decimal (status r)))))))
               else Inr data)"

text \<open>
  \<^verbatim>\<open>request\<close>: the call of \<^verbatim>\<open>fetch\<close> is recorded; the \<^verbatim>\<open>catch\<close> block logs the error
  and throws it again, so a rejection of \<^verbatim>\<open>fetch\<close> is the error of the call. With
  the result come the two things the call has written: the client's state, of which
  \<^verbatim>\<open>request\<close> writes nothing but the record of the call, and the caller's options
  bag.
\<close>

definition request ::
  "fetch \<Rightarrow> string \<Rightarrow> string \<Rightarrow> options \<Rightarrow> state \<Rightarrow> (error + json) \<times> state \<times> options" where
  "request fetch serviceUrl endpoint options st =
     (let url = serviceUrl @ endpoint;
          config = build_config (token st) options;
          options' = written_options (token st) options;
          st' = st\<lparr>requests := requests st @ [(url, config)]\<rparr>
      in case fetch url config of
           Inl e \<Rightarrow> (Inl e, st', options')
         | Inr r \<Rightarrow> (handle_response r, st', options'))"

text \<open>The default \<^verbatim>\<open>options = {}\<close>.\<close>

definition no_options :: options where
  "no_options = \<lparr> opt_method = None, opt_body = None, opt_headers = None \<rparr>"

definition login_options :: "json option \<Rightarrow> json option \<Rightarrow> options" where
  "login_options username password =
     \<lparr> opt_method = Some ''POST'',
       opt_body = Some (JSON_stringify (JObj (js_object [(''username'', username), (''password'', password)]))),
       opt_headers = None \<rparr>"

text \<open>
  \<^verbatim>\<open>
  async login(username, password) {
    const response = await this.request(API_CONFIG.USER_SERVICE, ENDPOINTS.AUTH.LOGIN, {...});
    if (response.access_token) {
      this.token = response.access_token;
      localStorage.setItem('token', this.token);
    }
    return response;
  }
  \<close>
\<close>

definition ApiClient_login ::
  "fetch \<Rightarrow> api_config \<Rightarrow> json option \<Rightarrow> json option \<Rightarrow> state \<Rightarrow> (error + json) \<times> state" where
  "ApiClient_login fetch conf username password st =
     (case request fetch (USER_SERVICE conf) AUTH_LOGIN (login_options username password) st of
        (Inl e, st1, bag) \<Rightarrow> (Inl e, st1)
      | (Inr response, st1, bag) \<Rightarrow>
          (case js_get response ''access_token'' of
             Inl e \<Rightarrow> (Inl e, st1)
           | Inr None \<Rightarrow> (Inr response, st1)
           | Inr (Some t) \<Rightarrow>
               if js_truthy t then (Inr response, setItem ''token'' t (st1\<lparr>token := t\<rparr>))
               else (Inr response, st1)))"

definition register_options :: "json \<Rightarrow> options" where
  "register_options userData =
     \<lparr> opt_method = Some ''POST'', opt_body = Some (JSON_stringify userData), opt_headers = None \<rparr>"

definition ApiClient_register :: "fetch \<Rightarrow> api_config \<Rightarrow> json \<Rightarrow> state \<Rightarrow> (error + json) \<times> state" where
  "ApiClient_register fetch conf userData st =
     (case request fetch (USER_SERVICE conf) AUTH_REGISTER (register_options userData) st of
        (response, st1, bag) \<Rightarrow> (response, st1))"

definition ApiClient_getCurrentUser :: "fetch \<Rightarrow> api_config \<Rightarrow> state \<Rightarrow> (error + json) \<times> state" where
  "ApiClient_getCurrentUser fetch conf st =
     (case request fetch (USER_SERVICE conf) AUTH_PROFILE no_options st of
        (response, st1, bag) \<Rightarrow> (response, st1))"

text \<open>
  Each method above passes \<^verbatim>\<open>request\<close> an options bag it has just made and keeps
  nothing of it, and returns what \<^verbatim>\<open>request\<close> returned.

  \<^verbatim>\<open>logout() { this.token = null; localStorage.removeItem('token'); }\<close>
\<close>

definition ApiClient_logout :: "state \<Rightarrow> state" where
  "ApiClient_logout st = removeItem ''token'' (st\<lparr>token := JNull\<rparr>)"

text \<open>
  \<^verbatim>\<open>getProducts(params = {})\<close> appends \<^verbatim>\<open>new URLSearchParams(params)\<close> to the list
  path. The parameters are name and value strings; their serialisation is the
  \<^verbatim>\<open>application/x-www-form-urlencoded\<close> one: letters, digits and \<^verbatim>\<open>*-._\<close> stay, a
  space is \<^verbatim>\<open>+\<close>, every other byte is \<^verbatim>\<open>%\<close> and two hexadecimal digits.
\<close>

definition urlencode_char :: "char \<Rightarrow> string" where
  "urlencode_char c =
     (if c \<in> set ''*-._0123456789ABCDEFGHIJKLMNOPQRSTUVWXYZabcdefghijklmnopqrstuvwxyz'' then [c]
      else if c = CHR '' '' then ''+''
      else [CHR ''%'', ''0123456789ABCDEF'' ! (of_char c div 16), ''0123456789ABCDEF'' ! (of_char c mod 16)])"

definition urlencode :: "string \<Rightarrow> string" where
  "urlencode s = concat (map urlencode_char s)"

fun URLSearchParams :: "(string \<times> string) list \<Rightarrow> string" where
  "URLSearchParams [] = []"
| "URLSearchParams [(k, v)] = urlencode k @ ''='' @ urlencode v"
| "URLSearchParams ((k, v) # p # ps) = urlencode k @ ''='' @ urlencode v @ ''&'' @ URLSearchParams (p # ps)"

definition ApiClient_getProducts ::
  "fetch \<Rightarrow> api_config \<Rightarrow> (string \<times> string) list \<Rightarrow> state \<Rightarrow> (error + json) \<times> state" where
  "ApiClient_getProducts fetch conf params st =
     (case request fetch (PRODUCT_SERVICE conf) (PRODUCTS_LIST @ ''?'' @ URLSearchParams params)
             no_options st of
        (response, st1, bag) \<Rightarrow> (response, st1))"

text \<open>
  Readings of a call, for stating what it sent: the config of the request the call
  handed to \<^verbatim>\<open>fetch\<close> (the last one recorded), a config's \<^verbatim>\<open>Authorization\<close>
  header, and the \<^verbatim>\<open>Authorization\<close> header that the options bag holds when the call
  is made; and the options bag the caller holds after the call.
\<close>

definition outgoing :: "fetch \<Rightarrow> string \<Rightarrow> string \<Rightarrow> options \<Rightarrow> state \<Rightarrow> config" where
  "outgoing fetch serviceUrl endpoint options st =
     snd (last (requests (fst (snd (request fetch serviceUrl endpoint options st)))))"

definition authorization :: "config \<Rightarrow> string option" where
  "authorization c = cfg_headers c ''Authorization''"

definition caller_authorization :: "options \<Rightarrow> string option" where
  "caller_authorization options =
     (case opt_headers options of None \<Rightarrow> None | Some h \<Rightarrow> h ''Authorization'')"


section \<open>The authentication hook (\<^verbatim>\<open>src/hooks/useAuth.js\<close>)\<close>

text \<open>
  The hook calls methods on the binding \<^verbatim>\<open>apiClient\<close>, which it imports as the default
  export of \<^verbatim>\<open>apiClient.js\<close>. That file ends with \<^verbatim>\<open>export default ApiClient;\<close>: the
  export is the class, not an object made by \<^verbatim>\<open>new ApiClient()\<close>. The methods of a
  class live on its prototype, and the class declares no static member, so on the class
  itself \<^verbatim>\<open>apiClient.login\<close>, \<^verbatim>\<open>apiClient.register\<close>, \<^verbatim>\<open>apiClient.getCurrentUser\<close> and
  \<^verbatim>\<open>apiClient.logout\<close> are \<^verbatim>\<open>undefined\<close> and calling one throws a \<^verbatim>\<open>TypeError\<close>, while
  an assignment \<^verbatim>\<open>apiClient.token = t\<close> is an ordinary property write. The hook is
  therefore modelled over the object its calls go to: the class, or an instance of it.
\<close>

datatype receiver = ApiClient_class | ApiClient_instance

definition apiClient :: receiver where
  "apiClient = ApiClient_class"

definition invoke ::
  "receiver \<Rightarrow> string \<Rightarrow> (state \<Rightarrow> (error + 'a) \<times> state) \<Rightarrow> state \<Rightarrow> (error + 'a) \<times> state" where
  "invoke r name m st =
     (case r of
        ApiClient_instance \<Rightarrow> m st
      | ApiClient_class \<Rightarrow> (Inl (TypeError (''apiClient.'' @ name @ '' is not a function'')), st))"

definition returning :: "(state \<Rightarrow> state) \<Rightarrow> state \<Rightarrow> (error + unit) \<times> state" where
  "returning f st = (Inr (), f st)"

text \<open>
  The hook's own state: \<^verbatim>\<open>user\<close> (initially \<^verbatim>\<open>null\<close>), \<^verbatim>\<open>loading\<close> (initially true)
  and \<^verbatim>\<open>error\<close> (\<open>None\<close> for \<^verbatim>\<open>null\<close>, else a message).
\<close>

record auth =
  user :: json
  loading :: bool
  error :: "string option"

text \<open>
  \<^verbatim>\<open>
  const getCurrentUser = async () => {
    try {
      const userData = await apiClient.getCurrentUser();
      setUser(userData);
    } catch (err) {
      console.error('Failed to get current user:', err);
      apiClient.logout();
    } finally {
      setLoading(false);
    }
  };
  \<close>
  An error thrown inside the \<^verbatim>\<open>catch\<close> block leaves the function after the
  \<^verbatim>\<open>finally\<close> block has run.
\<close>

definition useAuth_getCurrentUser ::
  "receiver \<Rightarrow> fetch \<Rightarrow> api_config \<Rightarrow> auth \<times> state \<Rightarrow> (error + unit) \<times> auth \<times> state" where
  "useAuth_getCurrentUser r fetch conf hs =
     (case hs of (h, st) \<Rightarrow>
        (case invoke r ''getCurrentUser'' (ApiClient_getCurrentUser fetch conf) st of
           (Inr userData, st1) \<Rightarrow> (Inr (), h\<lparr>user := userData, loading := False\<rparr>, st1)
         | (Inl err, st1) \<Rightarrow>
             (case invoke r ''logout'' (returning ApiClient_logout) st1 of
                (Inl err2, st2) \<Rightarrow> (Inl err2, h\<lparr>loading := False\<rparr>, st2)
              | (Inr u, st2) \<Rightarrow> (Inr (), h\<lparr>loading := False\<rparr>, st2))))"

text \<open>
  The effect run once at startup. It does not await \<^verbatim>\<open>getCurrentUser()\<close>; the first
  component is what that promise settles to (\<open>Inl\<close>: an unhandled rejection).
  \<^verbatim>\<open>
  useEffect(() => {
    const token = localStorage.getItem('token');
    if (token) { apiClient.token = token; getCurrentUser(); }
    else { setLoading(false); }
  }, []);
  \<close>
\<close>

definition useAuth_effect ::
  "receiver \<Rightarrow> fetch \<Rightarrow> api_config \<Rightarrow> auth \<times> state \<Rightarrow> (error + unit) \<times> auth \<times> state" where
  "useAuth_effect r fetch conf hs =
     (case hs of (h, st) \<Rightarrow>
        (let tok = getItem ''token'' st
         in if js_truthy tok then useAuth_getCurrentUser r fetch conf (h, st\<lparr>token := tok\<rparr>)
            else (Inr (), h\<lparr>loading := False\<rparr>, st)))"

text \<open>
  \<^verbatim>\<open>
  const login = async (username, password) => {
    try {
      setError(null);
      const response = await apiClient.login(username, password);
      await getCurrentUser();
      return response;
    } catch (err) { setError(err.message); throw err; }
  };
  \<close>
\<close>

definition useAuth_login ::
  "receiver \<Rightarrow> fetch \<Rightarrow> api_config \<Rightarrow> json option \<Rightarrow> json option \<Rightarrow> auth \<times> state
     \<Rightarrow> (error + json) \<times> auth \<times> state" where
  "useAuth_login r fetch conf username password hs =
     (case hs of (h, st) \<Rightarrow>
        (let h0 = h\<lparr>error := None\<rparr>
         in case invoke r ''login'' (ApiClient_login fetch conf username password) st of
              (Inl err, st1) \<Rightarrow> (Inl err, h0\<lparr>error := Some (message err)\<rparr>, st1)
            | (Inr response, st1) \<Rightarrow>
                (case useAuth_getCurrentUser r fetch conf (h0, st1) of
                   (Inl err, h2, st2) \<Rightarrow> (Inl err, h2\<lparr>error := Some (message err)\<rparr>, st2)
                 | (Inr u, h2, st2) \<Rightarrow> (Inr response, h2, st2))))"

text \<open>
  \<^verbatim>\<open>
  const register = async (userData) => {
    try {
      setError(null);
      const response = await apiClient.register(userData);
      // Auto-login after registration
      await login(userData.username, userData.password);
      return response;
    } catch (err) { setError(err.message); throw err; }
  };
  \<close>
\<close>

definition useAuth_register ::
  "receiver \<Rightarrow> fetch \<Rightarrow> api_config \<Rightarrow> json \<Rightarrow> auth \<times> state \<Rightarrow> (error + json) \<times> auth \<times> state" where
  "useAuth_register r fetch conf userData hs =
     (case hs of (h, st) \<Rightarrow>
        (let h0 = h\<lparr>error := None\<rparr>
         in case invoke r ''register'' (ApiClient_register fetch conf userData) st of
              (Inl err, st1) \<Rightarrow> (Inl err, h0\<lparr>error := Some (message err)\<rparr>, st1)
            | (Inr response, st1) \<Rightarrow>
                (case js_get userData ''username'' of
                   Inl err \<Rightarrow> (Inl err, h0\<lparr>error := Some (message err)\<rparr>, st1)
                 | Inr username \<Rightarrow>
                     (case js_get userData ''password'' of
                        Inl err \<Rightarrow> (Inl err, h0\<lparr>error := Some (message err)\<rparr>, st1)
                      | Inr password \<Rightarrow>
                          (case useAuth_login r fetch conf username password (h0, st1) of
                             (Inl err, h2, st2) \<Rightarrow> (Inl err, h2\<lparr>error := Some (message err)\<rparr>, st2)
                           | (Inr u, h2, st2) \<Rightarrow> (Inr response, h2, st2))))))"

text \<open>\<^verbatim>\<open>const logout = () => { apiClient.logout(); setUser(null); };\<close>\<close>

definition useAuth_logout :: "receiver \<Rightarrow> auth \<times> state \<Rightarrow> (error + unit) \<times> auth \<times> state" where
  "useAuth_logout r hs =
     (case hs of (h, st) \<Rightarrow>
        (case invoke r ''logout'' (returning ApiClient_logout) st of
           (Inl err, st1) \<Rightarrow> (Inl err, h, st1)
         | (Inr u, st1) \<Rightarrow> (Inr (), h\<lparr>user := JNull\<rparr>, st1)))"

section \<open>Concrete browsers, servers and calls\<close>

text \<open>
  The inputs at which the theorems below are instantiated: the default configuration,
  a fresh browser, a browser that kept the credential \<^verbatim>\<open>t0\<close>, and servers given by
  what they answer to a URL and a config.
\<close>

definition conf0 :: api_config where
  "conf0 = API_CONFIG Map.empty"

definition fresh :: state where
  "fresh = \<lparr> token = JNull, localStorage = Map.empty, requests = [] \<rparr>"

definition stored :: state where
  "stored = \<lparr> token = JNull, localStorage = [''token'' \<mapsto> ''t0''], requests = [] \<rparr>"

definition signed_in :: state where
  "signed_in = \<lparr> token = JStr ''t0'', localStorage = [''token'' \<mapsto> ''t0''], requests = [] \<rparr>"

definition mounted :: auth where
  "mounted = \<lparr> user = JNull, loading = True, error = None \<rparr>"

definition json_response :: "nat \<Rightarrow> string \<Rightarrow> json \<Rightarrow> response" where
  "json_response code text data =
     \<lparr> status = code, statusText = text, content_type = Some ''application/json'',
       response_json = Inr data \<rparr>"

definition alice :: json where
  "alice = JObj [(''username'', JStr ''alice''), (''email'', JStr ''alice@example.com''),
                 (''password'', JStr ''pw123''), (''full_name'', JStr ''Alice'')]"

definition created :: json where
  "created = JObj [(''id'', JNum 1), (''username'', JStr ''alice'')]"

definition granted :: json where
  "granted = JObj [(''access_token'', JStr ''t1'')]"

definition profile :: json where
  "profile = JObj [(''id'', JNum 1), (''username'', JStr ''alice'')]"

text \<open>A shop whose user service registers, logs in with the token \<^verbatim>\<open>t1\<close> and serves
  the profile to a bearer of \<^verbatim>\<open>t1\<close>, and whose product service lists no product.\<close>

definition shop :: fetch where
  "shop url c =
     (if url = ''http://localhost:8000/auth/register'' then Inr (json_response 200 ''OK'' created)
      else if url = ''http://localhost:8000/auth/login'' then Inr (json_response 200 ''OK'' granted)
      else if url = ''http://localhost:8000/profile'' then
        (if cfg_headers c ''Authorization'' = Some ''Bearer t1''
         then Inr (json_response 200 ''OK'' profile)
         else Inr (json_response 401 ''Unauthorized'' (JObj [(''detail'', JStr ''Not authenticated'')])))
      else if url = ''http://localhost:8001/products?'' then Inr (json_response 200 ''OK'' (JArr []))
      else Inl (TypeError ''Failed to fetch''))"

text \<open>The same shop with the profile endpoint unreachable.\<close>

definition shop_profile_down :: fetch where
  "shop_profile_down url c =
     (if url = ''http://localhost:8000/profile'' then Inl (TypeError ''Failed to fetch'')
      else shop url c)"

text \<open>The same shop refusing the login.\<close>

definition shop_wrong_password :: fetch where
  "shop_wrong_password url c =
     (if url = ''http://localhost:8000/auth/login''
      then Inr (json_response 401 ''Unauthorized''
                  (JObj [(''detail'', JStr ''Incorrect username or password'')]))
      else shop url c)"

text \<open>Servers that answer every request alike: a refusal with a detail, a refusal whose
  detail is the empty string, a page of HTML, the JSON text \<^verbatim>\<open>null\<close> with a success
  and with a failure status, a failure whose body announced as JSON is cut short, and a
  JSON object without a token.\<close>

definition refusing :: fetch where
  "refusing url c =
     Inr (json_response 401 ''Unauthorized'' (JObj [(''detail'', JStr ''Invalid credentials'')]))"

definition refusing_empty_detail :: fetch where
  "refusing_empty_detail url c = Inr (json_response 400 ''Bad Request'' (JObj [(''detail'', JStr [])]))"

definition html_page :: fetch where
  "html_page url c =
     Inr \<lparr> status = 200, statusText = ''OK'', content_type = Some ''text/html'',
           response_json = Inl (SyntaxError ''Unexpected token < in JSON at position 0'') \<rparr>"

definition answering_null :: fetch where
  "answering_null url c = Inr (json_response 200 ''OK'' JNull)"

definition failing_null :: fetch where
  "failing_null url c = Inr (json_response 500 ''Internal Server Error'' JNull)"

definition garbled :: fetch where
  "garbled url c =
     Inr \<lparr> status = 502, statusText = ''Bad Gateway'', content_type = Some ''application/json'',
           response_json = Inl (SyntaxError ''Unexpected end of JSON input'') \<rparr>"

definition answering_no_token :: fetch where
  "answering_no_token url c = Inr (json_response 200 ''OK'' (JObj [(''message'', JStr ''ok'')]))"

text \<open>Option bags with headers of the caller's own.\<close>

definition traced :: options where
  "traced = \<lparr> opt_method = None, opt_body = None, opt_headers = Some [''X-Request-Id'' \<mapsto> ''abc''] \<rparr>"

definition own_bearer :: options where
  "own_bearer = \<lparr> opt_method = None, opt_body = None,
                  opt_headers = Some [''Authorization'' \<mapsto> ''Bearer abc''] \<rparr>"

section \<open>The generic request operation\<close>

text \<open>The definitions unfolded to evaluate a call at a concrete input.\<close>

lemmas scenario_defs = shop_def shop_profile_down_def shop_wrong_password_def conf0_def API_CONFIG_def
  env_or_def AUTH_LOGIN_def AUTH_REGISTER_def AUTH_PROFILE_def json_response_def alice_def created_def
  granted_def profile_def fresh_def mounted_def stored_def signed_in_def

lemmas client_defs = ApiClient_register_def ApiClient_login_def ApiClient_getCurrentUser_def
  ApiClient_logout_def request_def handle_response_def json_content_type_def ok_def build_config_def
  default_headers_def login_options_def register_options_def no_options_def setItem_def removeItem_def
  getItem_def js_or_def Let_def

text \<open>\<open>js_includes\<close> is the substring test.\<close>

lemma take_length_eq_iff: "(take (length t) s = t) = (\<exists>ys. s = t @ ys)"
proof
  assume "take (length t) s = t"
  then have "s = t @ drop (length t) s"
    by (metis append_take_drop_id)
  then show "\<exists>ys. s = t @ ys" ..
next
  assume "\<exists>ys. s = t @ ys"
  then show "take (length t) s = t" by auto
qed

lemma js_includes_iff: "js_includes s t = (\<exists>xs ys. s = xs @ t @ ys)"
proof (induction s)
  case Nil
  show ?case by simp
next
  case (Cons c cs)
  have "(\<exists>xs ys. c # cs = xs @ t @ ys) = ((\<exists>ys. c # cs = t @ ys) \<or> (\<exists>xs ys. cs = xs @ t @ ys))"
  proof
    assume "\<exists>xs ys. c # cs = xs @ t @ ys"
    then obtain xs ys where eq: "c # cs = xs @ t @ ys" by blast
    show "(\<exists>ys. c # cs = t @ ys) \<or> (\<exists>xs ys. cs = xs @ t @ ys)"
    proof (cases xs)
      case Nil
      with eq show ?thesis by simp
    next
      case (Cons x xs')
      with eq have "cs = xs' @ t @ ys" by simp
      then show ?thesis by blast
    qed
  next
    assume "(\<exists>ys. c # cs = t @ ys) \<or> (\<exists>xs ys. cs = xs @ t @ ys)"
    then show "\<exists>xs ys. c # cs = xs @ t @ ys"
    proof
      assume "\<exists>ys. c # cs = t @ ys"
      then obtain ys where "c # cs = [] @ t @ ys" by auto
      then show ?thesis by blast
    next
      assume "\<exists>xs ys. cs = xs @ t @ ys"
      then obtain xs ys where "c # cs = (c # xs) @ t @ ys" by auto
      then show ?thesis by blast
    qed
  qed
  then show ?case
    by (simp only: js_includes.simps take_length_eq_iff Cons.IH)
qed

text \<open>What a call of \<^verbatim>\<open>request\<close> returns and what it hands to \<^verbatim>\<open>fetch\<close>.\<close>

lemma request_fst:
  "fst (request fetch serviceUrl endpoint options st) =
     (case fetch (serviceUrl @ endpoint) (build_config (token st) options) of
        Inl e \<Rightarrow> Inl e | Inr r \<Rightarrow> handle_response r)"
  by (simp add: request_def Let_def split: sum.splits)

lemma request_snd:
  "fst (snd (request fetch serviceUrl endpoint options st)) =
     st\<lparr>requests := requests st @ [(serviceUrl @ endpoint, build_config (token st) options)]\<rparr>"
  by (simp add: request_def Let_def split: sum.splits)

lemma request_bag:
  "snd (snd (request fetch serviceUrl endpoint options st)) = written_options (token st) options"
  by (simp add: request_def Let_def split: sum.splits)

lemma outgoing_build_config:
  "outgoing fetch serviceUrl endpoint options st = build_config (token st) options"
  by (simp add: outgoing_def request_snd)

lemma authorization_build_config:
  "authorization (build_config tok options) =
     (if js_truthy tok then Some (''Bearer '' @ js_to_string tok) else caller_authorization options)"
  by (simp add: authorization_def build_config_def caller_authorization_def default_headers_def
        Let_def map_add_def split: option.splits)

text \<open>
  Claim C1, as stated: a response with a JSON content type and a non-success status
  raises an error whose message is the body's \<^verbatim>\<open>detail\<close> field when that field is
  present, and the generic \<^verbatim>\<open>HTTP error\<close> message otherwise. It fails where the field
  is present and falsy: \<^verbatim>\<open>data.detail || ...\<close> then takes the generic message. A
  refusal with status 400 and the body \<^verbatim>\<open>{"detail": ""}\<close> has the field, and the error
  raised carries \<^verbatim>\<open>HTTP error! status: 400\<close>, not the empty detail. Two more
  responses with a JSON content type and a non-success status raise neither message:
  the body \<^verbatim>\<open>null\<close>, of which \<^verbatim>\<open>data.detail\<close> cannot be read, and a body that does
  not parse.
\<close>

theorem request_empty_detail_counterexample:
  "json_content_type (json_response 400 ''Bad Request'' (JObj [(''detail'', JStr [])]))
   \<and> \<not> ok (json_response 400 ''Bad Request'' (JObj [(''detail'', JStr [])]))
   \<and> js_get (JObj [(''detail'', JStr [])]) ''detail'' = Inr (Some (JStr []))
   \<and> fst (request refusing_empty_detail ''http://localhost:8000'' ''/auth/login'' no_options fresh) =
        Inl (Error ''HTTP error! status: 400'')
   \<and> fst (request refusing_empty_detail ''http://localhost:8000'' ''/auth/login'' no_options fresh) \<noteq>
        Inl (Error (js_to_string (JStr [])))
   \<and> fst (request failing_null ''http://localhost:8000'' ''/auth/login'' no_options fresh) =
        Inl (TypeError (''Cannot read properties of null (reading '' @ [CHR 0x27] @ ''detail''
               @ [CHR 0x27] @ '')''))
   \<and> fst (request garbled ''http://localhost:8000'' ''/auth/login'' no_options fresh) =
        Inl (SyntaxError ''Unexpected end of JSON input'')"
  by (simp add: request_fst handle_response_def refusing_empty_detail_def failing_null_def garbled_def
        json_response_def json_content_type_def ok_def js_or_def decimal.simps)

text \<open>
  Claim C1, amended. Let \<open>outcome\<close> be what \<^verbatim>\<open>fetch\<close> gives for the call. A rejection
  of \<^verbatim>\<open>fetch\<close> is the error of the call. A response without a JSON content type raises
  an \<^verbatim>\<open>Error\<close>. A response with a JSON content type whose body does not parse raises
  the parser's error. A response with a JSON content type, a parsed body and a success
  status returns the parsed body. With a non-success status and a body whose
  \<^verbatim>\<open>detail\<close> member is present and truthy, the error's message is that member converted
  to a string (the member itself when it is a string); with a body whose \<^verbatim>\<open>detail\<close>
  member is absent or falsy, the message is \<^verbatim>\<open>HTTP error! status: \<close> followed by the
  status code. No response with a non-success status gives a normal return. (A body
  that is \<^verbatim>\<open>null\<close> has no members to read and is not covered by the two message
  clauses.)
\<close>

theorem request_outcome:
  assumes "fetch (serviceUrl @ endpoint) (build_config (token st) options) = outcome"
  shows "(\<forall>e. outcome = Inl e \<longrightarrow> fst (request fetch serviceUrl endpoint options st) = Inl e)
    \<and> (\<forall>r. outcome = Inr r \<and> \<not> json_content_type r \<longrightarrow>
          (\<exists>m. fst (request fetch serviceUrl endpoint options st) = Inl (Error m)))
    \<and> (\<forall>r e. outcome = Inr r \<and> json_content_type r \<and> response_json r = Inl e \<longrightarrow>
          fst (request fetch serviceUrl endpoint options st) = Inl e)
    \<and> (\<forall>r data. outcome = Inr r \<and> json_content_type r \<and> response_json r = Inr data \<and> ok r \<longrightarrow>
          fst (request fetch serviceUrl endpoint options st) = Inr data)
    \<and> (\<forall>r data d. outcome = Inr r \<and> json_content_type r \<and> response_json r = Inr data \<and> \<not> ok r
            \<and> js_get data ''detail'' = Inr (Some d) \<and> js_truthy d \<longrightarrow>
          fst (request fetch serviceUrl endpoint options st) = Inl (Error (js_to_string d)))
    \<and> (\<forall>r data d. outcome = Inr r \<and> json_content_type r \<and> response_json r = Inr data \<and> \<not> ok r
            \<and> js_get data ''detail'' = Inr d \<and> \<not> truthy d \<longrightarrow>
          fst (request fetch serviceUrl endpoint options st) =
            Inl (Error (''HTTP error! status: '' @ decimal (status r))))
    \<and> (\<forall>r. outcome = Inr r \<and> \<not> ok r \<longrightarrow>
          (\<exists>e. fst (request fetch serviceUrl endpoint options st) = Inl e))"
  using assms
  by (auto simp: request_fst handle_response_def js_or_def truthy_def split: sum.splits option.splits)

text \<open>
  The amended claim at four calls: an unreachable service, a product list, a refused
  login with a detail, and a refused login with the empty detail.
\<close>

theorem request_outcome_witness:
  "fst (request shop ''http://localhost:8002'' ''/orders'' no_options fresh) = Inl (TypeError ''Failed to fetch'')
   \<and> fst (request shop ''http://localhost:8001'' ''/products?'' no_options fresh) = Inr (JArr [])
   \<and> fst (request refusing ''http://localhost:8000'' ''/auth/login'' no_options fresh) =
        Inl (Error ''Invalid credentials'')
   \<and> fst (request refusing_empty_detail ''http://localhost:8000'' ''/auth/login'' no_options fresh) =
        Inl (Error ''HTTP error! status: 400'')"
  using request_outcome [of shop "''http://localhost:8002''" "''/orders''" fresh no_options, OF refl]
    request_outcome [of shop "''http://localhost:8001''" "''/products?''" fresh no_options, OF refl]
    request_outcome [of refusing "''http://localhost:8000''" "''/auth/login''" fresh no_options, OF refl]
    request_outcome [of refusing_empty_detail "''http://localhost:8000''" "''/auth/login''" fresh no_options, OF refl]
  by (simp add: shop_def refusing_def refusing_empty_detail_def json_response_def json_content_type_def
        ok_def truthy_def decimal.simps)

text \<open>
  Claim C4: when the response's content type is absent or does not contain
  \<^verbatim>\<open>application/json\<close>, the call raises an error whose message is
  \<^verbatim>\<open>Server returned \<close>, the status, a colon and the status text, whatever the body
  and whether or not the status is a success.
\<close>

theorem request_non_json:
  assumes "fetch (serviceUrl @ endpoint) (build_config (token st) options) = Inr r"
    and "content_type r = None \<or> (\<exists>ct. content_type r = Some ct \<and> \<not> js_includes ct ''application/json'')"
  shows "fst (request fetch serviceUrl endpoint options st) =
           Inl (Error (''Server returned '' @ decimal (status r) @ '': '' @ statusText r))"
proof -
  from assms(2) have "\<not> json_content_type r"
    by (auto simp: json_content_type_def)
  with assms(1) show ?thesis
    by (simp add: request_fst handle_response_def)
qed

text \<open>A page of HTML served with status 200.\<close>

theorem request_non_json_witness:
  "fst (request html_page ''http://localhost:8001'' ''/products'' no_options fresh) =
     Inl (Error ''Server returned 200: OK'')"
  using request_non_json [of html_page "''http://localhost:8001''" "''/products''" fresh no_options
      "\<lparr> status = 200, statusText = ''OK'', content_type = Some ''text/html'',
           response_json = Inl (SyntaxError ''Unexpected token < in JSON at position 0'') \<rparr>"]
  by (simp add: html_page_def decimal.simps)

text \<open>
  Claim C2, as stated: the outgoing request carries a bearer \<^verbatim>\<open>Authorization\<close> header
  if and only if a non-empty credential is held, and with no credential no
  \<^verbatim>\<open>Authorization\<close> header is attached. It fails for a caller that puts an
  \<^verbatim>\<open>Authorization\<close> header into the options bag: the bag's headers are passed on, so
  with no credential held the request still carries the caller's bearer header.
\<close>

theorem request_caller_authorization_counterexample:
  "token fresh = JNull
   \<and> \<not> js_truthy (token fresh)
   \<and> authorization (outgoing shop ''http://localhost:8000'' ''/profile'' own_bearer fresh) =
       Some ''Bearer abc''"
  by (simp add: outgoing_build_config authorization_build_config fresh_def own_bearer_def
        caller_authorization_def)

text \<open>
  Claim C2, amended. The \<^verbatim>\<open>Authorization\<close> header of the outgoing request is
  \<^verbatim>\<open>Bearer \<close> followed by the credential when the credential held is truthy (for a
  string: non-empty), replacing any such header of the caller; otherwise it is the
  header the caller supplied, if any. So for a call whose options supply no
  \<^verbatim>\<open>Authorization\<close> header, the request carries one if and only if a truthy credential
  is held. In particular a client constructed over a browser that stores a non-empty
  credential attaches it as a bearer header on its next call, and a client constructed
  with no stored credential, or an empty one, attaches none.
\<close>

theorem request_authorization:
  "authorization (outgoing fetch serviceUrl endpoint options st) =
     (if js_truthy (token st) then Some (''Bearer '' @ js_to_string (token st))
      else caller_authorization options)
   \<and> (caller_authorization options = None \<longrightarrow>
        (\<exists>v. authorization (outgoing fetch serviceUrl endpoint options st) = Some v) = js_truthy (token st))
   \<and> (\<forall>s. localStorage st ''token'' = Some s \<and> s \<noteq> [] \<longrightarrow>
        authorization (outgoing fetch serviceUrl endpoint options (constructor st)) = Some (''Bearer '' @ s))
   \<and> ((localStorage st ''token'' = None \<or> localStorage st ''token'' = Some [])
        \<and> caller_authorization options = None \<longrightarrow>
        authorization (outgoing fetch serviceUrl endpoint options (constructor st)) = None)"
  by (auto simp: outgoing_build_config authorization_build_config constructor_def getItem_def)

text \<open>
  The amended claim at a client constructed over the stored credential \<^verbatim>\<open>t0\<close>, at one
  constructed over an empty store, at a caller's own header under a held credential,
  and at a caller's headers without \<^verbatim>\<open>Authorization\<close>.
\<close>

theorem request_authorization_witness:
  "authorization (outgoing shop ''http://localhost:8000'' ''/profile'' no_options (constructor stored)) =
     Some ''Bearer t0''
   \<and> authorization (outgoing shop ''http://localhost:8000'' ''/profile'' no_options (constructor fresh)) = None
   \<and> authorization (outgoing shop ''http://localhost:8000'' ''/profile'' own_bearer signed_in) =
     Some ''Bearer t0''
   \<and> authorization (outgoing shop ''http://localhost:8000'' ''/profile'' traced fresh) = None"
  using request_authorization [of shop "''http://localhost:8000''" "''/profile''" no_options stored]
    request_authorization [of shop "''http://localhost:8000''" "''/profile''" no_options fresh]
    request_authorization [of shop "''http://localhost:8000''" "''/profile''" own_bearer signed_in]
    request_authorization [of shop "''http://localhost:8000''" "''/profile''" traced fresh]
  by (simp add: stored_def fresh_def signed_in_def no_options_def traced_def own_bearer_def
        caller_authorization_def)

text \<open>
  Claim C5 says that a call with caller-supplied headers carries
  \<^verbatim>\<open>Content-Type: application/json\<close> unless the caller overrides it, besides every
  header of the caller. The code builds that merge and then spreads \<^verbatim>\<open>options\<close> over
  it, which puts the caller's \<^verbatim>\<open>headers\<close> object in place of the merged one. A call
  with the single header \<^verbatim>\<open>X-Request-Id: abc\<close> goes out with that header and without
  a content type; the same call with no headers of its own carries the content type.
\<close>

theorem request_drops_content_type:
  "cfg_headers (outgoing shop ''http://localhost:8001'' ''/products?'' traced fresh) ''Content-Type'' = None
   \<and> cfg_headers (outgoing shop ''http://localhost:8001'' ''/products?'' traced fresh) ''X-Request-Id'' =
       Some ''abc''
   \<and> cfg_headers (outgoing shop ''http://localhost:8001'' ''/products?'' no_options fresh) ''Content-Type'' =
       Some ''application/json''"
  by (simp add: outgoing_build_config build_config_def fresh_def traced_def no_options_def
        default_headers_def Let_def)

section \<open>Login, registration and logout\<close>

lemma request_pair:
  "request fetch serviceUrl endpoint options st =
     (fst (request fetch serviceUrl endpoint options st),
      st\<lparr>requests := requests st @ [(serviceUrl @ endpoint, build_config (token st) options)]\<rparr>,
      written_options (token st) options)"
  by (metis prod.collapse request_snd request_bag)

lemma getProducts_outgoing:
  "snd (last (requests (snd (ApiClient_getProducts fetch conf params st)))) =
     outgoing fetch (PRODUCT_SERVICE conf) (PRODUCTS_LIST @ ''?'' @ URLSearchParams params) no_options st"
  by (subst ApiClient_getProducts_def, subst request_pair) (simp add: outgoing_build_config)

lemma register_eq:
  "ApiClient_register fetch conf userData st =
     (fst (request fetch (USER_SERVICE conf) AUTH_REGISTER (register_options userData) st),
      st\<lparr>requests := requests st @ [(USER_SERVICE conf @ AUTH_REGISTER,
              build_config (token st) (register_options userData))]\<rparr>)"
  by (subst ApiClient_register_def, subst request_pair) simp

lemma getCurrentUser_eq:
  "ApiClient_getCurrentUser fetch conf st =
     (fst (request fetch (USER_SERVICE conf) AUTH_PROFILE no_options st),
      st\<lparr>requests := requests st @ [(USER_SERVICE conf @ AUTH_PROFILE,
              build_config (token st) no_options)]\<rparr>)"
  by (subst ApiClient_getCurrentUser_def, subst request_pair) simp


lemma request_success:
  assumes "fetch (serviceUrl @ endpoint) (build_config (token st) options) = Inr r"
    and "json_content_type r" and "ok r" and "response_json r = Inr data"
  shows "fst (request fetch serviceUrl endpoint options st) = Inr data"
  using assms by (simp add: request_fst handle_response_def)

lemma login_requests:
  "requests (snd (ApiClient_login fetch conf username password st)) =
     requests st @ [(USER_SERVICE conf @ AUTH_LOGIN, build_config (token st) (login_options username password))]"
  by (subst ApiClient_login_def, subst request_pair)
     (simp add: setItem_def split: sum.splits option.splits)

text \<open>
  Claim C3: a login whose response has a success status, a JSON content type and a
  parsed body with a truthy \<^verbatim>\<open>access_token\<close> returns that body, keeps the token as
  the client's credential, stores it (as a string) under \<^verbatim>\<open>token\<close> in
  \<^verbatim>\<open>localStorage\<close>, and every later call carries the header \<^verbatim>\<open>Authorization: Bearer\<close>
  with that token.
\<close>

theorem login_stores_token:
  assumes "fetch (USER_SERVICE conf @ AUTH_LOGIN)
             (build_config (token st) (login_options username password)) = Inr r"
    and "json_content_type r" and "ok r" and "response_json r = Inr data"
    and "js_get data ''access_token'' = Inr (Some t)" and "js_truthy t"
  shows "fst (ApiClient_login fetch conf username password st) = Inr data
    \<and> token (snd (ApiClient_login fetch conf username password st)) = t
    \<and> localStorage (snd (ApiClient_login fetch conf username password st)) ''token'' = Some (js_to_string t)
    \<and> (\<forall>fetch' serviceUrl endpoint options.
          authorization (outgoing fetch' serviceUrl endpoint options
            (snd (ApiClient_login fetch conf username password st))) = Some (''Bearer '' @ js_to_string t))"
proof -
  have "fst (request fetch (USER_SERVICE conf) AUTH_LOGIN (login_options username password) st) = Inr data"
    using assms(1-4) by (rule request_success)
  then have "ApiClient_login fetch conf username password st =
      (Inr data, setItem ''token'' t
         (st\<lparr>requests := requests st @ [(USER_SERVICE conf @ AUTH_LOGIN,
                 build_config (token st) (login_options username password))], token := t\<rparr>))"
    using assms(5,6)
    by (subst ApiClient_login_def, subst request_pair) simp
  then show ?thesis
    using assms(6)
    by (simp add: setItem_def outgoing_build_config authorization_build_config)
qed

text \<open>
  The example of the specification: \<^verbatim>\<open>login("alice", "pw123")\<close> against a server
  answering \<^verbatim>\<open>{access_token: "t1"}\<close> with status 200 leaves the credential \<^verbatim>\<open>t1\<close>, and
  the \<^verbatim>\<open>getProducts({})\<close> that follows sends \<^verbatim>\<open>Authorization: Bearer t1\<close>.
\<close>

theorem login_stores_token_witness:
  "fst (ApiClient_login shop conf0 (Some (JStr ''alice'')) (Some (JStr ''pw123'')) fresh) =
     Inr (JObj [(''access_token'', JStr ''t1'')])
   \<and> token (snd (ApiClient_login shop conf0 (Some (JStr ''alice'')) (Some (JStr ''pw123'')) fresh)) = JStr ''t1''
   \<and> localStorage (snd (ApiClient_login shop conf0 (Some (JStr ''alice'')) (Some (JStr ''pw123'')) fresh))
        ''token'' = Some ''t1''
   \<and> authorization (snd (last (requests (snd (ApiClient_getProducts shop conf0 []
        (snd (ApiClient_login shop conf0 (Some (JStr ''alice'')) (Some (JStr ''pw123'')) fresh))))))) =
       Some ''Bearer t1''"
  using login_stores_token [of shop conf0 fresh "Some (JStr ''alice'')" "Some (JStr ''pw123'')"
      "json_response 200 ''OK'' granted" granted "JStr ''t1''"]
  by (simp add: shop_def conf0_def API_CONFIG_def env_or_def AUTH_LOGIN_def json_response_def
        json_content_type_def ok_def granted_def getProducts_outgoing)

text \<open>
  Claim C9, as stated: a login whose response is a success-status JSON body lacking a
  truthy \<^verbatim>\<open>access_token\<close> raises no error. The JSON text \<^verbatim>\<open>null\<close> is such a body, and
  reading \<^verbatim>\<open>response.access_token\<close> of it throws: the login raises a \<^verbatim>\<open>TypeError\<close>.
\<close>

theorem login_null_body_counterexample:
  "json_content_type (json_response 200 ''OK'' JNull)
   \<and> ok (json_response 200 ''OK'' JNull)
   \<and> fst (ApiClient_login answering_null conf0 (Some (JStr ''alice'')) (Some (JStr ''pw123'')) signed_in) =
       Inl (TypeError (''Cannot read properties of null (reading '' @ [CHR 0x27] @ ''access_token''
              @ [CHR 0x27] @ '')''))"
  by (simp add: ApiClient_login_def request_def Let_def answering_null_def json_response_def
        handle_response_def json_content_type_def ok_def)

text \<open>
  Claim C9, amended: a login whose response has a success status, a JSON content type
  and a parsed body other than \<^verbatim>\<open>null\<close> whose \<^verbatim>\<open>access_token\<close> member is absent or
  falsy raises no error, returns the body, and leaves the credential held and the
  stored one as they were: an earlier session persists. (A member read that yields a
  value or \<^verbatim>\<open>undefined\<close> is a read of a body other than \<^verbatim>\<open>null\<close>.)
\<close>

theorem login_without_token:
  assumes "fetch (USER_SERVICE conf @ AUTH_LOGIN)
             (build_config (token st) (login_options username password)) = Inr r"
    and "json_content_type r" and "ok r" and "response_json r = Inr data"
    and "js_get data ''access_token'' = Inr v" and "\<not> truthy v"
  shows "fst (ApiClient_login fetch conf username password st) = Inr data
    \<and> token (snd (ApiClient_login fetch conf username password st)) = token st
    \<and> localStorage (snd (ApiClient_login fetch conf username password st)) = localStorage st"
proof -
  have "fst (request fetch (USER_SERVICE conf) AUTH_LOGIN (login_options username password) st) = Inr data"
    using assms(1-4) by (rule request_success)
  then have "ApiClient_login fetch conf username password st =
      (Inr data, st\<lparr>requests := requests st @ [(USER_SERVICE conf @ AUTH_LOGIN,
                 build_config (token st) (login_options username password))]\<rparr>)"
    using assms(5,6)
    by (subst ApiClient_login_def, subst request_pair) (simp add: truthy_def split: option.splits)
  then show ?thesis
    by simp
qed

text \<open>A login answered by \<^verbatim>\<open>{message: "ok"}\<close> while the credential \<^verbatim>\<open>t0\<close> is held.\<close>

theorem login_without_token_witness:
  "fst (ApiClient_login answering_no_token conf0 (Some (JStr ''alice'')) (Some (JStr ''pw123'')) signed_in) =
     Inr (JObj [(''message'', JStr ''ok'')])
   \<and> token (snd (ApiClient_login answering_no_token conf0 (Some (JStr ''alice'')) (Some (JStr ''pw123''))
        signed_in)) = JStr ''t0''
   \<and> localStorage (snd (ApiClient_login answering_no_token conf0 (Some (JStr ''alice''))
        (Some (JStr ''pw123'')) signed_in)) ''token'' = Some ''t0''"
  using login_without_token [of answering_no_token conf0 signed_in "Some (JStr ''alice'')"
      "Some (JStr ''pw123'')" "json_response 200 ''OK'' (JObj [(''message'', JStr ''ok'')])"
      "JObj [(''message'', JStr ''ok'')]" None]
  by (simp add: answering_no_token_def json_response_def json_content_type_def ok_def truthy_def
        signed_in_def)

text \<open>
  Claim C7: \<^verbatim>\<open>register(userData)\<close> establishes no session. Whatever the server
  answers, the credential held and the whole of \<^verbatim>\<open>localStorage\<close> are after the call
  what they were before; and what the call returns is the parsed body of the response:
  a response with a JSON content type, a success status and a parsed body makes the
  call return that body, and any value the call returns is the parsed body of the
  response it received.
\<close>

theorem register_keeps_credential:
  "token (snd (ApiClient_register fetch conf userData st)) = token st
   \<and> localStorage (snd (ApiClient_register fetch conf userData st)) = localStorage st
   \<and> (\<forall>r data. fetch (USER_SERVICE conf @ AUTH_REGISTER)
                   (build_config (token st) (register_options userData)) = Inr r
          \<and> json_content_type r \<and> ok r \<and> response_json r = Inr data \<longrightarrow>
        fst (ApiClient_register fetch conf userData st) = Inr data)
   \<and> (\<forall>data. fst (ApiClient_register fetch conf userData st) = Inr data \<longrightarrow>
        (\<exists>r. fetch (USER_SERVICE conf @ AUTH_REGISTER)
                (build_config (token st) (register_options userData)) = Inr r
           \<and> response_json r = Inr data))"
  by (auto simp: register_eq request_fst handle_response_def split: sum.splits if_splits)

text \<open>
  A registration the shop accepts, from a signed-in and from a fresh browser, and one
  a server refuses.
\<close>

theorem register_keeps_credential_witness:
  "token (snd (ApiClient_register shop conf0 alice signed_in)) = JStr ''t0''
   \<and> localStorage (snd (ApiClient_register shop conf0 alice signed_in)) ''token'' = Some ''t0''
   \<and> fst (ApiClient_register shop conf0 alice fresh) = Inr created
   \<and> token (snd (ApiClient_register shop conf0 alice fresh)) = JNull
   \<and> localStorage (snd (ApiClient_register shop conf0 alice fresh)) ''token'' = None
   \<and> token (snd (ApiClient_register refusing conf0 alice signed_in)) = JStr ''t0''
   \<and> localStorage (snd (ApiClient_register refusing conf0 alice signed_in)) ''token'' = Some ''t0''"
  using register_keeps_credential [of shop conf0 alice signed_in]
    register_keeps_credential [of shop conf0 alice fresh]
    register_keeps_credential [of refusing conf0 alice signed_in]
  by (simp add: signed_in_def fresh_def shop_def conf0_def API_CONFIG_def env_or_def AUTH_REGISTER_def
        json_response_def json_content_type_def ok_def)





section \<open>The authentication hook\<close>

lemma invoke_instance: "invoke ApiClient_instance name m st = m st"
  by (simp add: invoke_def)

lemma invoke_returns_instance:
  "invoke r name m st = (Inr x, st1) \<Longrightarrow> r = ApiClient_instance"
  by (cases r) (simp_all add: invoke_def)

lemma login_token:
  assumes "fst (ApiClient_login fetch conf username password st) = Inr d"
    and "js_get d ''access_token'' = Inr (Some t)" and "js_truthy t"
  shows "token (snd (ApiClient_login fetch conf username password st)) = t
    \<and> localStorage (snd (ApiClient_login fetch conf username password st)) ''token'' = Some (js_to_string t)"
  using assms
  by (subst (asm) ApiClient_login_def, subst (asm) request_pair, subst ApiClient_login_def,
      subst request_pair, subst ApiClient_login_def, subst request_pair)
     (auto simp: setItem_def split: sum.splits option.splits if_splits)

lemma getCurrentUser_snd:
  "snd (ApiClient_getCurrentUser fetch conf st) =
     st\<lparr>requests := requests st @ [(USER_SERVICE conf @ AUTH_PROFILE, build_config (token st) no_options)]\<rparr>"
  by (simp add: getCurrentUser_eq)

text \<open>The hook's functions when \<^verbatim>\<open>apiClient\<close> is an instance of the client.\<close>

lemma useAuth_getCurrentUser_instance:
  "useAuth_getCurrentUser ApiClient_instance fetch conf (h, st) =
     (case fst (ApiClient_getCurrentUser fetch conf st) of
        Inr userData \<Rightarrow>
          (Inr (), h\<lparr>user := userData, loading := False\<rparr>, snd (ApiClient_getCurrentUser fetch conf st))
      | Inl e \<Rightarrow>
          (Inr (), h\<lparr>loading := False\<rparr>, ApiClient_logout (snd (ApiClient_getCurrentUser fetch conf st))))"
  by (simp add: useAuth_getCurrentUser_def invoke_instance returning_def split: prod.splits sum.splits)

lemma useAuth_login_instance:
  "useAuth_login ApiClient_instance fetch conf username password (h, st) =
     (case fst (ApiClient_login fetch conf username password st) of
        Inl e \<Rightarrow> (Inl e, h\<lparr>error := Some (message e)\<rparr>, snd (ApiClient_login fetch conf username password st))
      | Inr d \<Rightarrow>
          (Inr d, snd (useAuth_getCurrentUser ApiClient_instance fetch conf
                    (h\<lparr>error := None\<rparr>, snd (ApiClient_login fetch conf username password st)))))"
  by (simp add: useAuth_login_def invoke_instance useAuth_getCurrentUser_instance Let_def
        split: prod.splits sum.splits)

lemma useAuth_register_instance:
  assumes "js_get userData ''username'' = Inr username" and "js_get userData ''password'' = Inr password"
    and "ApiClient_register fetch conf userData st = (Inr response, st1)"
  shows "useAuth_register ApiClient_instance fetch conf userData (h, st) =
     (case fst (ApiClient_login fetch conf username password st1) of
        Inl e \<Rightarrow> (Inl e, h\<lparr>error := Some (message e)\<rparr>,
                   snd (ApiClient_login fetch conf username password st1))
      | Inr d \<Rightarrow>
          (Inr response, snd (useAuth_getCurrentUser ApiClient_instance fetch conf
             (h\<lparr>error := None\<rparr>, snd (ApiClient_login fetch conf username password st1)))))"
  using assms
  by (simp add: useAuth_register_def invoke_instance useAuth_login_instance Let_def
        split: prod.splits sum.splits)

text \<open>
  Claim C8 says that a failed lookup of the current user during session restoration
  logs the client out locally, destroying the credential held and the stored one, and
  surfaces no error. The hook calls \<^verbatim>\<open>apiClient.getCurrentUser()\<close> and, in its
  \<^verbatim>\<open>catch\<close> block, \<^verbatim>\<open>apiClient.logout()\<close> on the default export of \<^verbatim>\<open>apiClient.js\<close>,
  which is the class. With the credential \<^verbatim>\<open>t0\<close> stored and the profile endpoint
  unreachable, the lookup throws before any request is made, the logout in the
  \<^verbatim>\<open>catch\<close> block throws in turn, the promise of \<^verbatim>\<open>getCurrentUser()\<close> is rejected, and
  the credential is still held and still stored.
\<close>

theorem useAuth_effect_on_export:
  "fst (useAuth_effect apiClient shop_profile_down conf0 (mounted, stored)) =
     Inl (TypeError ''apiClient.logout is not a function'')
   \<and> token (snd (snd (useAuth_effect apiClient shop_profile_down conf0 (mounted, stored)))) = JStr ''t0''
   \<and> localStorage (snd (snd (useAuth_effect apiClient shop_profile_down conf0 (mounted, stored)))) ''token'' =
       Some ''t0''
   \<and> requests (snd (snd (useAuth_effect apiClient shop_profile_down conf0 (mounted, stored)))) = []"
  by (simp add: useAuth_effect_def useAuth_getCurrentUser_def invoke_def apiClient_def getItem_def
        stored_def Let_def)

text \<open>
  On the export every function of the hook fails the same way, whatever the server
  and the state: the client's method is not found, no request is made and the
  client's state stays as it was.
\<close>

theorem useAuth_on_export:
  "useAuth_getCurrentUser apiClient fetch conf (h, st) =
     (Inl (TypeError ''apiClient.logout is not a function''), h\<lparr>loading := False\<rparr>, st)
   \<and> useAuth_login apiClient fetch conf username password (h, st) =
     (Inl (TypeError ''apiClient.login is not a function''),
      h\<lparr>error := Some ''apiClient.login is not a function''\<rparr>, st)
   \<and> useAuth_register apiClient fetch conf userData (h, st) =
     (Inl (TypeError ''apiClient.register is not a function''),
      h\<lparr>error := Some ''apiClient.register is not a function''\<rparr>, st)
   \<and> useAuth_logout apiClient (h, st) = (Inl (TypeError ''apiClient.logout is not a function''), h, st)"
  by (simp add: useAuth_getCurrentUser_def useAuth_login_def useAuth_register_def useAuth_logout_def
        invoke_def apiClient_def Let_def)

text \<open>
  On an instance of the client the startup effect does what claim C8 describes. With a
  non-empty credential stored, the effect sends the profile lookup with that
  credential as bearer header; when the lookup fails, the promise is fulfilled (no
  error is raised), the credential held is cleared, the stored one is removed, and the
  hook's state changes in \<^verbatim>\<open>loading\<close> only: \<^verbatim>\<open>user\<close> and \<^verbatim>\<open>error\<close> stay as they were.
\<close>

theorem useAuth_effect_failed_lookup:
  assumes "localStorage st ''token'' = Some s" and "s \<noteq> []"
    and "fst (ApiClient_getCurrentUser fetch conf (st\<lparr>token := JStr s\<rparr>)) = Inl e"
  shows "fst (useAuth_effect ApiClient_instance fetch conf (h, st)) = Inr ()
    \<and> fst (snd (useAuth_effect ApiClient_instance fetch conf (h, st))) = h\<lparr>loading := False\<rparr>
    \<and> token (snd (snd (useAuth_effect ApiClient_instance fetch conf (h, st)))) = JNull
    \<and> localStorage (snd (snd (useAuth_effect ApiClient_instance fetch conf (h, st)))) ''token'' = None
    \<and> requests (snd (snd (useAuth_effect ApiClient_instance fetch conf (h, st)))) =
        requests st @ [(USER_SERVICE conf @ AUTH_PROFILE, build_config (JStr s) no_options)]
    \<and> authorization (build_config (JStr s) no_options) = Some (''Bearer '' @ s)"
  using assms
  by (simp add: useAuth_effect_def getItem_def Let_def useAuth_getCurrentUser_instance
        getCurrentUser_snd ApiClient_logout_def removeItem_def authorization_build_config)

text \<open>Restoring the session of \<^verbatim>\<open>t0\<close> while the profile endpoint is unreachable.\<close>

theorem useAuth_effect_failed_lookup_witness:
  "fst (useAuth_effect ApiClient_instance shop_profile_down conf0 (mounted, stored)) = Inr ()
   \<and> fst (snd (useAuth_effect ApiClient_instance shop_profile_down conf0 (mounted, stored))) =
       \<lparr> user = JNull, loading = False, error = None \<rparr>
   \<and> token (snd (snd (useAuth_effect ApiClient_instance shop_profile_down conf0 (mounted, stored)))) = JNull
   \<and> localStorage (snd (snd (useAuth_effect ApiClient_instance shop_profile_down conf0 (mounted, stored))))
       ''token'' = None"
  using useAuth_effect_failed_lookup [of stored "''t0''" shop_profile_down conf0 "TypeError ''Failed to fetch''"
      mounted]
  by (simp add: scenario_defs client_defs)


text \<open>
  What the hook's \<^verbatim>\<open>register\<close> does when its calls go to an instance of the client.
  With a shop that registers and logs in but whose profile endpoint is unreachable, it
  returns the registration's response with no error recorded, and the lookup of the
  current user that ends the login has logged the client out again.
\<close>

theorem useAuth_register_profile_down_instance:
  "fst (useAuth_register ApiClient_instance shop_profile_down conf0 alice (mounted, fresh)) = Inr created
   \<and> error (fst (snd (useAuth_register ApiClient_instance shop_profile_down conf0 alice (mounted, fresh)))) = None
   \<and> token (snd (snd (useAuth_register ApiClient_instance shop_profile_down conf0 alice (mounted, fresh)))) = JNull
   \<and> localStorage (snd (snd (useAuth_register ApiClient_instance shop_profile_down conf0 alice (mounted, fresh))))
        ''token'' = None
   \<and> user (fst (snd (useAuth_register ApiClient_instance shop_profile_down conf0 alice (mounted, fresh)))) = JNull"
  by (simp add: useAuth_register_def useAuth_login_def useAuth_getCurrentUser_def invoke_def returning_def
        scenario_defs client_defs)

text \<open>
  Whenever the client's \<^verbatim>\<open>register\<close> call made by the hook returns a response, which
  it does on an instance only, and \<^verbatim>\<open>userData.username\<close> and \<^verbatim>\<open>userData.password\<close>
  can be read:
  the request sent next is the login with that username and password; if that login
  raises, the hook's \<^verbatim>\<open>register\<close> raises the same error and records its message; if
  it returns, the hook's \<^verbatim>\<open>register\<close> returns the registration's response with no
  error recorded. A session is held afterwards when the login's response has a truthy
  \<^verbatim>\<open>access_token\<close> and the lookup of the current user that follows succeeds: the token
  is held and stored and the user is the profile. When that lookup fails, the
  credential is cleared and removed from storage and the user is left as it was,
  while \<^verbatim>\<open>register\<close> still returns normally.
\<close>

theorem useAuth_register_then_login:
  assumes reg: "invoke r ''register'' (ApiClient_register fetch conf userData) st = (Inr response, st1)"
    and u: "js_get userData ''username'' = Inr username"
    and p: "js_get userData ''password'' = Inr password"
  shows "(\<exists>rest. requests (snd (snd (useAuth_register r fetch conf userData (h, st)))) =
            requests st
            @ [(USER_SERVICE conf @ AUTH_REGISTER, build_config (token st) (register_options userData)),
               (USER_SERVICE conf @ AUTH_LOGIN, build_config (token st) (login_options username password))]
            @ rest)
    \<and> (\<forall>e. fst (ApiClient_login fetch conf username password st1) = Inl e \<longrightarrow>
          fst (useAuth_register r fetch conf userData (h, st)) = Inl e
          \<and> error (fst (snd (useAuth_register r fetch conf userData (h, st)))) = Some (message e))
    \<and> (\<forall>d. fst (ApiClient_login fetch conf username password st1) = Inr d \<longrightarrow>
          fst (useAuth_register r fetch conf userData (h, st)) = Inr response
          \<and> error (fst (snd (useAuth_register r fetch conf userData (h, st)))) = None)
    \<and> (\<forall>d t pr. fst (ApiClient_login fetch conf username password st1) = Inr d
            \<and> js_get d ''access_token'' = Inr (Some t) \<and> js_truthy t
            \<and> fst (ApiClient_getCurrentUser fetch conf
                     (snd (ApiClient_login fetch conf username password st1))) = Inr pr \<longrightarrow>
          token (snd (snd (useAuth_register r fetch conf userData (h, st)))) = t
          \<and> localStorage (snd (snd (useAuth_register r fetch conf userData (h, st)))) ''token'' =
              Some (js_to_string t)
          \<and> user (fst (snd (useAuth_register r fetch conf userData (h, st)))) = pr)
    \<and> (\<forall>d e. fst (ApiClient_login fetch conf username password st1) = Inr d
            \<and> fst (ApiClient_getCurrentUser fetch conf
                     (snd (ApiClient_login fetch conf username password st1))) = Inl e \<longrightarrow>
          token (snd (snd (useAuth_register r fetch conf userData (h, st)))) = JNull
          \<and> localStorage (snd (snd (useAuth_register r fetch conf userData (h, st)))) ''token'' = None
          \<and> user (fst (snd (useAuth_register r fetch conf userData (h, st)))) = user h)"
proof -
  have r: "r = ApiClient_instance"
    using reg by (rule invoke_returns_instance)
  from reg have reg': "ApiClient_register fetch conf userData st = (Inr response, st1)"
    by (simp add: r invoke_instance)
  then have st1: "st1 = snd (ApiClient_register fetch conf userData st)"
    by simp
  let ?L = "ApiClient_login fetch conf username password st1"
  let ?G = "ApiClient_getCurrentUser fetch conf (snd ?L)"
  have st1_eq: "st1 = st\<lparr>requests := requests st
      @ [(USER_SERVICE conf @ AUTH_REGISTER, build_config (token st) (register_options userData))]\<rparr>"
    by (simp add: st1 register_eq)
  have eq: "useAuth_register r fetch conf userData (h, st) =
     (case fst ?L of
        Inl e \<Rightarrow> (Inl e, h\<lparr>error := Some (message e)\<rparr>, snd ?L)
      | Inr d \<Rightarrow> (Inr response, snd (useAuth_getCurrentUser ApiClient_instance fetch conf
                                      (h\<lparr>error := None\<rparr>, snd ?L))))"
    unfolding r by (rule useAuth_register_instance [OF u p reg'])
  have reqL: "requests (snd ?L) = requests st
      @ [(USER_SERVICE conf @ AUTH_REGISTER, build_config (token st) (register_options userData)),
         (USER_SERVICE conf @ AUTH_LOGIN, build_config (token st) (login_options username password))]"
    by (simp add: login_requests) (simp add: st1_eq)
  have a: "\<exists>rest. requests (snd (snd (useAuth_register r fetch conf userData (h, st)))) =
            requests st
            @ [(USER_SERVICE conf @ AUTH_REGISTER, build_config (token st) (register_options userData)),
               (USER_SERVICE conf @ AUTH_LOGIN, build_config (token st) (login_options username password))]
            @ rest"
    by (cases "fst ?L"; cases "fst ?G")
       (simp_all add: eq useAuth_getCurrentUser_instance reqL getCurrentUser_snd ApiClient_logout_def
          removeItem_def)
  have b: "\<forall>e. fst ?L = Inl e \<longrightarrow>
          fst (useAuth_register r fetch conf userData (h, st)) = Inl e
          \<and> error (fst (snd (useAuth_register r fetch conf userData (h, st)))) = Some (message e)"
    by (simp add: eq)
  have c: "\<forall>d. fst ?L = Inr d \<longrightarrow>
          fst (useAuth_register r fetch conf userData (h, st)) = Inr response
          \<and> error (fst (snd (useAuth_register r fetch conf userData (h, st)))) = None"
    by (cases "fst ?G") (simp_all add: eq useAuth_getCurrentUser_instance)
  have d: "\<forall>d t pr. fst ?L = Inr d \<and> js_get d ''access_token'' = Inr (Some t) \<and> js_truthy t
            \<and> fst ?G = Inr pr \<longrightarrow>
          token (snd (snd (useAuth_register r fetch conf userData (h, st)))) = t
          \<and> localStorage (snd (snd (useAuth_register r fetch conf userData (h, st)))) ''token'' =
              Some (js_to_string t)
          \<and> user (fst (snd (useAuth_register r fetch conf userData (h, st)))) = pr"
    using login_token [of fetch conf username password st1]
    by (auto simp: eq useAuth_getCurrentUser_instance getCurrentUser_snd)
  have e: "\<forall>d e. fst ?L = Inr d \<and> fst ?G = Inl e \<longrightarrow>
          token (snd (snd (useAuth_register r fetch conf userData (h, st)))) = JNull
          \<and> localStorage (snd (snd (useAuth_register r fetch conf userData (h, st)))) ''token'' = None
          \<and> user (fst (snd (useAuth_register r fetch conf userData (h, st)))) = user h"
    by (auto simp: eq useAuth_getCurrentUser_instance ApiClient_logout_def removeItem_def)
  from a b c d e show ?thesis by blast
qed

text \<open>
  On an instance, at three shops, each registering \<^verbatim>\<open>alice\<close> from a fresh browser:
  one that logs her in and serves her profile, one that refuses the login, and one
  whose profile endpoint is unreachable.
\<close>

theorem useAuth_register_then_login_witness:
  "fst (useAuth_register ApiClient_instance shop conf0 alice (mounted, fresh)) = Inr created
   \<and> token (snd (snd (useAuth_register ApiClient_instance shop conf0 alice (mounted, fresh)))) = JStr ''t1''
   \<and> localStorage (snd (snd (useAuth_register ApiClient_instance shop conf0 alice (mounted, fresh))))
        ''token'' = Some ''t1''
   \<and> user (fst (snd (useAuth_register ApiClient_instance shop conf0 alice (mounted, fresh)))) = profile
   \<and> fst (useAuth_register ApiClient_instance shop_wrong_password conf0 alice (mounted, fresh)) =
        Inl (Error ''Incorrect username or password'')
   \<and> error (fst (snd (useAuth_register ApiClient_instance shop_wrong_password conf0 alice (mounted, fresh)))) =
        Some ''Incorrect username or password''
   \<and> token (snd (snd (useAuth_register ApiClient_instance shop_profile_down conf0 alice (mounted, fresh)))) =
        JNull"
proof -
  let ?u = "Some (JStr ''alice'')" and ?p = "Some (JStr ''pw123'')"
  have u: "js_get alice ''username'' = Inr ?u" and p: "js_get alice ''password'' = Inr ?p"
    by (simp_all add: alice_def)
  have r1: "invoke ApiClient_instance ''register'' (ApiClient_register shop conf0 alice) fresh =
      (Inr created, snd (ApiClient_register shop conf0 alice fresh))"
    by (simp add: invoke_def prod_eq_iff scenario_defs client_defs)
  have r2: "invoke ApiClient_instance ''register'' (ApiClient_register shop_wrong_password conf0 alice) fresh =
      (Inr created, snd (ApiClient_register shop_wrong_password conf0 alice fresh))"
    by (simp add: invoke_def prod_eq_iff scenario_defs client_defs)
  have r3: "invoke ApiClient_instance ''register'' (ApiClient_register shop_profile_down conf0 alice) fresh =
      (Inr created, snd (ApiClient_register shop_profile_down conf0 alice fresh))"
    by (simp add: invoke_def prod_eq_iff scenario_defs client_defs)
  show ?thesis
    using useAuth_register_then_login [OF r1 u p, of mounted]
      useAuth_register_then_login [OF r2 u p, of mounted]
      useAuth_register_then_login [OF r3 u p, of mounted]
    by (simp add: scenario_defs client_defs)
qed

end
